theory Spec2Isabelle
  imports Main
begin

section \<open>The XML configuration backend (core/config/xml/xml.go)\<close>

subsection \<open>Values, map objects and the heap\<close>

text \<open>
  A configuration node is a Go \<^verbatim>\<open>map[string]interface{}\<close>. A Go map is a reference:
  two handles may hold the same map object, and a write through one is seen through the
  other. The model therefore keeps the map objects in a heap, addressed by \<open>addr\<close>, and a
  value of type \<^verbatim>\<open>interface{}\<close> is the nil interface, a string, a reference to a map
  object, or a slice of values (what the XML-to-map conversion builds for repeated
  elements; it stands for every shape that is neither a string nor a map).
\<close>

type_synonym addr = nat

datatype val = VNil | VStr string | VMap addr | VSlice "val list"

type_synonym gomap = "string \<rightharpoonup> val"

type_synonym heap = "addr \<Rightarrow> gomap"

text \<open>
  The Go index expression \<^verbatim>\<open>m[key]\<close> in its one-result form: the zero value of
  \<^verbatim>\<open>interface{}\<close>, nil, when the key is absent.
\<close>

definition mapIndex :: "gomap \<Rightarrow> string \<Rightarrow> val" where
  "mapIndex m key = (case m key of None \<Rightarrow> VNil | Some v \<Rightarrow> v)"

text \<open>
  \<^verbatim>\<open>type ConfigContainer struct { data map[string]interface{}; sync.Mutex }\<close>.
  \<open>ParseData\<close> and \<open>Sub\<close> are the only places that build a handle, and both store a
  non-nil map, so \<open>data\<close> is the address of a map object. The mutex only orders
  concurrent writers; in this sequential model \<open>Lock\<close> and \<open>Unlock\<close> have no effect.
\<close>

record ConfigContainer =
  data :: addr

subsection \<open>Errors and runtime panics\<close>

datatype strconv_err = ErrSyntax | ErrRange | ErrBitSize

datatype error =
    ConversionError string
      \<comment> \<open>whatever error the XML-to-map conversion reports\<close>
  | MissingConfigTags
      \<comment> \<open>"xml parse should include in <config></config> tags"\<close>
  | ConfigWithoutSubTags
      \<comment> \<open>"xml parse <config></config> tags should include sub tags"\<close>
  | KeyNotFound string
      \<comment> \<open>"the key is not found: %s"\<close>
  | NotAStructure string
      \<comment> \<open>"the value of this key is not a structure: %s"\<close>
  | NotExistKey string
      \<comment> \<open>"not exist key: %q"\<close>
  | ParseBoolInvalid val
      \<comment> \<open>the type error of the boolean-token parser\<close>
  | NumError string string strconv_err
      \<comment> \<open>\<^verbatim>\<open>strconv.NumError{Func, Num, Err}\<close>\<close>
  | NotExistKeyDIY
      \<comment> \<open>"not exist key"\<close>
  | UnsupportedTypeError string
      \<comment> \<open>\<^verbatim>\<open>xml.UnsupportedTypeError\<close>: "xml: unsupported type: ..."\<close>
  | PathError string
      \<comment> \<open>an error of the operating system on a file\<close>

text \<open>
  A failed unchecked type assertion \<^verbatim>\<open>x.(string)\<close> does not return an error: it panics
  with a \<^verbatim>\<open>runtime.TypeAssertionError\<close>, which unwinds through every caller that does
  not recover. No function of this file recovers.
\<close>

datatype panic = TypeAssertionError val

datatype 'a outcome = Panicked panic | Returned 'a

subsection \<open>Section narrowing\<close>

definition sub :: "ConfigContainer \<Rightarrow> heap \<Rightarrow> string \<Rightarrow> error + addr" where
  "sub c h key =
     (if key = [] then Inr (data c)
      else case h (data c) key of
             None \<Rightarrow> Inl (KeyNotFound key)
           | Some v \<Rightarrow> (case v of
                         VMap res \<Rightarrow> Inr res
                       | _ \<Rightarrow> Inl (NotAStructure key)))"

definition Sub :: "ConfigContainer \<Rightarrow> heap \<Rightarrow> string \<Rightarrow> error + ConfigContainer" where
  "Sub c h key =
     (case sub c h key of
        Inl err \<Rightarrow> Inl err
      | Inr s \<Rightarrow> Inr \<lparr>data = s\<rparr>)"

subsection \<open>Booleans\<close>

text \<open>
  Modelled from the spec: \<open>config.ParseBool\<close> lives in the parent package
  \<^verbatim>\<open>core/config\<close>, which is not among the sources. The spec describes it as a permissive
  boolean-token parser that accepts the truthy spellings "1", "t", "T", "TRUE", "true",
  "True" and the falsy spellings "0", "f", "F", "FALSE", "false", "False", and fails with
  a type error on anything it cannot parse.
\<close>

definition truthy :: "string list" where
  "truthy = [''1'', ''t'', ''T'', ''TRUE'', ''true'', ''True'']"

definition falsy :: "string list" where
  "falsy = [''0'', ''f'', ''F'', ''FALSE'', ''false'', ''False'']"

definition ParseBool :: "val \<Rightarrow> bool \<times> error option" where
  "ParseBool v =
     (case v of
        VStr s \<Rightarrow>
          if s \<in> set truthy then (True, None)
          else if s \<in> set falsy then (False, None)
          else (False, Some (ParseBoolInvalid v))
      | _ \<Rightarrow> (False, Some (ParseBoolInvalid v)))"

definition Bool :: "ConfigContainer \<Rightarrow> heap \<Rightarrow> string \<Rightarrow> bool \<times> error option" where
  "Bool c h key =
     (let v = mapIndex (h (data c)) key
      in if v \<noteq> VNil then ParseBool v
         else (False, Some (NotExistKey key)))"

definition DefaultBool :: "ConfigContainer \<Rightarrow> heap \<Rightarrow> string \<Rightarrow> bool \<Rightarrow> bool" where
  "DefaultBool c h key defaultVal =
     (case Bool c h key of
        (v, Some err) \<Rightarrow> defaultVal
      | (v, None) \<Rightarrow> v)"

subsection \<open>Strings\<close>

definition String :: "ConfigContainer \<Rightarrow> heap \<Rightarrow> string \<Rightarrow> string \<times> error option" where
  "String c h key =
     (case mapIndex (h (data c)) key of
        VStr v \<Rightarrow> (v, None)
      | _ \<Rightarrow> ([], None))"

definition DefaultString :: "ConfigContainer \<Rightarrow> heap \<Rightarrow> string \<Rightarrow> string \<Rightarrow> string" where
  "DefaultString c h key defaultVal =
     (case String c h key of
        (v, err) \<Rightarrow> if v = [] \<or> err \<noteq> None then defaultVal else v)"

subsection \<open>Writing and raw reads\<close>

definition Set :: "ConfigContainer \<Rightarrow> heap \<Rightarrow> string \<Rightarrow> string \<Rightarrow> heap \<times> error option" where
  "Set c h key v = (h(data c := (h (data c))(key \<mapsto> VStr v)), None)"

definition DIY :: "ConfigContainer \<Rightarrow> heap \<Rightarrow> string \<Rightarrow> val \<times> error option" where
  "DIY c h key =
     (case h (data c) key of
        Some v \<Rightarrow> (v, None)
      | None \<Rightarrow> (VNil, Some NotExistKeyDIY))"

subsection \<open>Numbers: the part of \<^verbatim>\<open>strconv\<close> the getters call\<close>

text \<open>
  \<open>Int\<close> calls \<^verbatim>\<open>strconv.Atoi(s)\<close> and \<open>Int64\<close> calls
  \<^verbatim>\<open>strconv.ParseInt(s, 10, 64)\<close>. Both are Go's standard library; the definitions
  below follow its code with the base fixed to 10, the only base the getters pass. In
  base 10 a byte is accepted exactly when it is one of \<^verbatim>\<open>'0'..'9'\<close>: a letter is a
  digit of value at least 10 and is rejected as a syntax error like any other byte, and
  an underscore is allowed only with base 0. Unsigned 64-bit arithmetic is written on
  \<open>nat\<close> with the wrap-around \<open>mod 2 ^ 64\<close> spelled out.
\<close>

definition IntSize :: nat where
  \<comment> \<open>\<^verbatim>\<open>strconv.IntSize\<close>, the width of \<^verbatim>\<open>int\<close>, on a 64-bit platform\<close>
  "IntSize = 64"

definition maxUint64 :: nat where
  "maxUint64 = 2 ^ 64 - 1"

definition isDigit :: "char \<Rightarrow> bool" where
  "isDigit c = (of_char (CHR ''0'') \<le> (of_char c :: nat) \<and> (of_char c :: nat) \<le> of_char (CHR ''9''))"

definition digitVal :: "char \<Rightarrow> nat" where
  "digitVal c = of_char c - of_char (CHR ''0'')"

text \<open>
  The loop of \<open>ParseUint\<close> over the bytes of the input, with the running value \<open>n\<close>:
  \<open>cutoff\<close> is the smallest number whose tenfold exceeds \<open>maxUint64\<close>.
\<close>

fun ParseUint_loop :: "nat \<Rightarrow> nat \<Rightarrow> string \<Rightarrow> nat \<times> strconv_err option" where
  "ParseUint_loop maxVal n [] = (n, None)"
| "ParseUint_loop maxVal n (c # cs) =
     (if \<not> isDigit c then (0, Some ErrSyntax)
      else if n \<ge> maxUint64 div 10 + 1 then (maxVal, Some ErrRange)
      else let n10 = (n * 10) mod 2 ^ 64;
               n1 = (n10 + digitVal c) mod 2 ^ 64
           in if n1 < n10 \<or> n1 > maxVal then (maxVal, Some ErrRange)
              else ParseUint_loop maxVal n1 cs)"

definition ParseUint :: "string \<Rightarrow> nat \<Rightarrow> nat \<times> strconv_err option" where
  "ParseUint s bitSize =
     (if s = [] then (0, Some ErrSyntax)
      else if bitSize > 64 then (0, Some ErrBitSize)
      else let bits = (if bitSize = 0 then IntSize else bitSize)
           in ParseUint_loop (2 ^ bits - 1) 0 s)"

definition ParseInt :: "string \<Rightarrow> nat \<Rightarrow> int \<times> error option" where
  "ParseInt s0 bitSize =
     (if s0 = [] then (0, Some (NumError ''ParseInt'' s0 ErrSyntax))
      else
        let neg = (hd s0 = CHR ''-'');
            s = (if hd s0 = CHR ''+'' \<or> hd s0 = CHR ''-'' then tl s0 else s0);
            (un, err) = ParseUint s bitSize;
            notRange = (case err of
                          None \<Rightarrow> None
                        | Some e \<Rightarrow> if e \<noteq> ErrRange then Some e else None)
        in case notRange of
             Some e \<Rightarrow> (0, Some (NumError ''ParseInt'' s0 e))
           | None \<Rightarrow>
               let bits = (if bitSize = 0 then IntSize else bitSize);
                   cutoff = (2::nat) ^ (bits - 1)
               in if \<not> neg \<and> un \<ge> cutoff
                    then (int cutoff - 1, Some (NumError ''ParseInt'' s0 ErrRange))
                  else if neg \<and> un > cutoff
                    then (- int cutoff, Some (NumError ''ParseInt'' s0 ErrRange))
                  else (if neg then - int un else int un, None))"

text \<open>
  \<open>Atoi\<close> is \<open>ParseInt(s, 10, 0)\<close> converted to \<^verbatim>\<open>int\<close>, with the function name in
  the error replaced. (Its fast path for short inputs computes the same result.)
\<close>

definition Atoi :: "string \<Rightarrow> int \<times> error option" where
  "Atoi s =
     (case ParseInt s 0 of
        (i64, Some (NumError f num e)) \<Rightarrow> (i64, Some (NumError ''Atoi'' num e))
      | (i64, err) \<Rightarrow> (i64, err))"

text \<open>
  The getters assert the stored value to be a string without the comma-ok form, so every
  other value, the nil of an absent key among them, is a runtime panic.
\<close>

definition assertString :: "val \<Rightarrow> string outcome" where
  "assertString v = (case v of VStr s \<Rightarrow> Returned s | _ \<Rightarrow> Panicked (TypeAssertionError v))"

definition Int_get :: "ConfigContainer \<Rightarrow> heap \<Rightarrow> string \<Rightarrow> (int \<times> error option) outcome" where
  "Int_get c h key =
     (case assertString (mapIndex (h (data c)) key) of
        Panicked p \<Rightarrow> Panicked p
      | Returned s \<Rightarrow> Returned (Atoi s))"

definition DefaultInt :: "ConfigContainer \<Rightarrow> heap \<Rightarrow> string \<Rightarrow> int \<Rightarrow> int outcome" where
  "DefaultInt c h key defaultVal =
     (case Int_get c h key of
        Panicked p \<Rightarrow> Panicked p
      | Returned (v, Some err) \<Rightarrow> Returned defaultVal
      | Returned (v, None) \<Rightarrow> Returned v)"

definition Int64 :: "ConfigContainer \<Rightarrow> heap \<Rightarrow> string \<Rightarrow> (int \<times> error option) outcome" where
  "Int64 c h key =
     (case assertString (mapIndex (h (data c)) key) of
        Panicked p \<Rightarrow> Panicked p
      | Returned s \<Rightarrow> Returned (ParseInt s 64))"

definition DefaultInt64 :: "ConfigContainer \<Rightarrow> heap \<Rightarrow> string \<Rightarrow> int \<Rightarrow> int outcome" where
  "DefaultInt64 c h key defaultVal =
     (case Int64 c h key of
        Panicked p \<Rightarrow> Panicked p
      | Returned (v, Some err) \<Rightarrow> Returned defaultVal
      | Returned (v, None) \<Rightarrow> Returned v)"

text \<open>
  \<^verbatim>\<open>strconv.ParseFloat(s, 64)\<close> computes in floating point; it is a parameter
  \<open>parseFloat\<close> of the two float getters, over any type \<open>'f\<close> of results.
\<close>

definition Float ::
  "(string \<Rightarrow> 'f \<times> error option) \<Rightarrow> ConfigContainer \<Rightarrow> heap \<Rightarrow> string
     \<Rightarrow> ('f \<times> error option) outcome" where
  "Float parseFloat c h key =
     (case assertString (mapIndex (h (data c)) key) of
        Panicked p \<Rightarrow> Panicked p
      | Returned s \<Rightarrow> Returned (parseFloat s))"

definition DefaultFloat ::
  "(string \<Rightarrow> 'f \<times> error option) \<Rightarrow> ConfigContainer \<Rightarrow> heap \<Rightarrow> string \<Rightarrow> 'f
     \<Rightarrow> 'f outcome" where
  "DefaultFloat parseFloat c h key defaultVal =
     (case Float parseFloat c h key of
        Panicked p \<Rightarrow> Panicked p
      | Returned (v, Some err) \<Rightarrow> Returned defaultVal
      | Returned (v, None) \<Rightarrow> Returned v)"

subsection \<open>Lists of strings\<close>

text \<open>
  \<^verbatim>\<open>strings.Split(s, sep)\<close> of the standard library: cut \<open>s\<close> at the first
  occurrence of \<open>sep\<close>, again and again. \<open>Strings\<close> only passes the separator ";"; for
  the empty separator the library splits after every character (here: every byte).
\<close>

definition HasPrefix :: "string \<Rightarrow> string \<Rightarrow> bool" where
  "HasPrefix s p = (take (length p) s = p)"

fun Index :: "string \<Rightarrow> string \<Rightarrow> nat option" where
  "Index [] sep = (if sep = [] then Some 0 else None)"
| "Index (c # cs) sep =
     (if HasPrefix (c # cs) sep then Some 0
      else map_option Suc (Index cs sep))"

function Split :: "string \<Rightarrow> string \<Rightarrow> string list" where
  "Split s sep =
     (if sep = [] then map (\<lambda>c. [c]) s
      else case Index s sep of
             None \<Rightarrow> [s]
           | Some m \<Rightarrow> take m s # Split (drop (m + length sep) s) sep)"
  by pat_completeness auto
termination
proof (relation "measure (\<lambda>(s, sep). length s)")
  show "wf (measure (\<lambda>(s, sep). length s))" by simp
next
  fix s sep :: string and m :: nat
  assume "sep \<noteq> []" and "Index s sep = Some m"
  then have "s \<noteq> []" by (cases s) auto
  with \<open>sep \<noteq> []\<close> show "((drop (m + length sep) s, sep), (s, sep)) \<in> measure (\<lambda>(s, sep). length s)"
    by (cases s; cases sep) auto
qed

text \<open>A nil slice is \<open>None\<close>.\<close>

definition Strings ::
  "ConfigContainer \<Rightarrow> heap \<Rightarrow> string \<Rightarrow> string list option \<times> error option" where
  "Strings c h key =
     (case String c h key of
        (v, err) \<Rightarrow>
          if v = [] \<or> err \<noteq> None then (None, err)
          else (Some (Split v '';''), None))"

definition DefaultStrings ::
  "ConfigContainer \<Rightarrow> heap \<Rightarrow> string \<Rightarrow> string list option \<Rightarrow> string list option" where
  "DefaultStrings c h key defaultVal =
     (case Strings c h key of
        (v, err) \<Rightarrow> if v = None \<or> err \<noteq> None then defaultVal else v)"

subsection \<open>Loading\<close>

text \<open>
  \<open>ParseData\<close> calls two functions from outside this file: \<^verbatim>\<open>x2j.DocToMap\<close>, which
  turns the document into a fresh map object or fails, and
  \<^verbatim>\<open>config.ExpandValueEnvForMap\<close>, which expands the environment placeholders of a
  map and returns the expanded map. Both are parameters here; each may allocate or
  rewrite map objects, so each takes the heap and returns the new one. (The empty map
  that \<open>ParseData\<close> makes first is replaced before the handle is returned and is never
  visible.)
\<close>

definition ParseData ::
  "(string \<Rightarrow> heap \<Rightarrow> (error + addr) \<times> heap) \<Rightarrow> (addr \<Rightarrow> heap \<Rightarrow> addr \<times> heap)
     \<Rightarrow> string \<Rightarrow> heap \<Rightarrow> (error + ConfigContainer) \<times> heap" where
  "ParseData DocToMap ExpandValueEnvForMap bytes h =
     (case DocToMap bytes h of
        (Inl err, h1) \<Rightarrow> (Inl err, h1)
      | (Inr d, h1) \<Rightarrow>
          (let v = mapIndex (h1 d) ''config''
           in if v = VNil then (Inl MissingConfigTags, h1)
              else case v of
                     VMap confVal \<Rightarrow>
                       (case ExpandValueEnvForMap confVal h1 of
                          (m, h2) \<Rightarrow> (Inr \<lparr>data = m\<rparr>, h2))
                   | _ \<Rightarrow> (Inl ConfigWithoutSubTags, h1)))"

subsection \<open>Saving\<close>

text \<open>
  \<open>SaveConfigFile\<close> hands \<open>c.data\<close>, a \<^verbatim>\<open>map[string]interface{}\<close>, to
  \<^verbatim>\<open>xml.MarshalIndent\<close> of the standard library, whose documentation says: "Marshal
  will return an error if asked to marshal a channel, function, or map." For a map it
  returns no bytes and an \<^verbatim>\<open>UnsupportedTypeError\<close>. \<open>MarshalIndent\<close> below is the
  library function at that one argument type.
\<close>

definition MarshalIndent :: "addr \<Rightarrow> heap \<Rightarrow> string \<Rightarrow> string \<Rightarrow> string \<times> error option" where
  "MarshalIndent v h prefix indent =
     ([], Some (UnsupportedTypeError ''map[string]interface {}''))"

text \<open>
  The operating system is a parameter: \<open>OpenFile\<close> (called with
  \<^verbatim>\<open>O_RDWR|O_CREATE|O_NOFOLLOW\<close> and mode 0600) fails or returns a file,
  \<open>Write\<close> writes bytes to it and may fail, \<open>Close\<close> is the deferred
  \<^verbatim>\<open>f.Close()\<close>; \<open>'w\<close> is the state of the file system and \<open>'f\<close> an open file.
\<close>

definition SaveConfigFile ::
  "(string \<Rightarrow> 'w \<Rightarrow> (error + 'f) \<times> 'w) \<Rightarrow> ('f \<Rightarrow> string \<Rightarrow> 'w \<Rightarrow> error option \<times> 'w)
     \<Rightarrow> ('f \<Rightarrow> 'w \<Rightarrow> 'w) \<Rightarrow> ConfigContainer \<Rightarrow> heap \<Rightarrow> string \<Rightarrow> 'w
     \<Rightarrow> error option \<times> 'w" where
  "SaveConfigFile OpenFile Write Close c h filename w =
     (case OpenFile filename w of
        (Inl err, w1) \<Rightarrow> (Some err, w1)
      | (Inr f, w1) \<Rightarrow>
          (case MarshalIndent (data c) h ''  '' ''    '' of
             (b, Some err) \<Rightarrow> (Some err, Close f w1)
           | (b, None) \<Rightarrow>
               (case Write f b w1 of
                  (err, w2) \<Rightarrow> (err, Close f w2))))"

subsection \<open>Decimal numerals, as the claims word them\<close>

text \<open>
  These definitions do not come from the code: they say what "a base-10 integer" and
  "the base-10 decimal spelling of an integer" mean, so that the parser above can be
  compared with them. A decimal numeral is an optional sign followed by at least one
  digit; its value is read positionally; the spelling of an integer is a minus sign for a
  negative number followed by the digits of its magnitude without leading zeros.
\<close>

definition decimalValue :: "string \<Rightarrow> nat" where
  "decimalValue ds = foldl (\<lambda>a c. a * 10 + digitVal c) 0 ds"

definition unsigned :: "string \<Rightarrow> string" where
  "unsigned s =
     (case s of
        [] \<Rightarrow> []
      | c # cs \<Rightarrow> if c = CHR ''+'' \<or> c = CHR ''-'' then cs else s)"

definition isDecimal :: "string \<Rightarrow> bool" where
  "isDecimal s = (unsigned s \<noteq> [] \<and> list_all isDigit (unsigned s))"

definition decimalInt :: "string \<Rightarrow> int" where
  "decimalInt s =
     (case s of
        [] \<Rightarrow> 0
      | c # cs \<Rightarrow>
          if c = CHR ''-'' then - int (decimalValue cs)
          else int (decimalValue (unsigned s)))"

fun digitsOf :: "nat \<Rightarrow> string" where
  digitsOf_eq [simp del]:
  "digitsOf n =
     (if n < 10 then [char_of (48 + n)]
      else digitsOf (n div 10) @ [char_of (48 + n mod 10)])"

definition decimalSpelling :: "int \<Rightarrow> string" where
  "decimalSpelling i =
     (if i < 0 then CHR ''-'' # digitsOf (nat (- i)) else digitsOf (nat i))"

subsection \<open>A sample configuration\<close>

text \<open>
  The heap after loading
  \<^verbatim>\<open><config><debug>true</debug><quiet>F</quiet><mode>fast</mode><hosts>a;b;c</hosts><empty></empty><db><port>5432</port></db></config>\<close>:
  the root node is the map object 0 and the section \<open>db\<close> the map object 1.
\<close>

definition sampleHeap :: heap where
  "sampleHeap =
     (\<lambda>a. if a = 0 then [''debug'' \<mapsto> VStr ''true'', ''quiet'' \<mapsto> VStr ''F'',
                           ''mode'' \<mapsto> VStr ''fast'', ''hosts'' \<mapsto> VStr ''a;b;c'',
                           ''empty'' \<mapsto> VStr [], ''db'' \<mapsto> VMap 1]
          else if a = 1 then [''port'' \<mapsto> VStr ''5432'']
          else Map.empty)"

definition root :: ConfigContainer where
  "root = \<lparr>data = 0\<rparr>"

section \<open>Properties\<close>

lemma mapIndex_Some: "m key = Some v \<Longrightarrow> mapIndex m key = v"
  by (simp add: mapIndex_def)

lemma mapIndex_None: "m key = None \<Longrightarrow> mapIndex m key = VNil"
  by (simp add: mapIndex_def)


subsection \<open>Booleans\<close>

text \<open>
  C2. For a key present with a stored string: the truthy spellings "1", "t", "T", "TRUE",
  "true", "True" give \<open>(true, nil)\<close>; the falsy spellings "0", "f", "F", "FALSE",
  "false", "False" give \<open>(false, nil)\<close>; every other string gives the type error of the
  boolean parser. For an absent key \<open>Bool\<close> returns the not-found error.
\<close>

theorem Bool_spellings:
  "(h (data c) key = Some (VStr v) \<and> v \<in> set [''1'', ''t'', ''T'', ''TRUE'', ''true'', ''True'']
      \<longrightarrow> Bool c h key = (True, None)) \<and>
   (h (data c) key = Some (VStr v) \<and> v \<in> set [''0'', ''f'', ''F'', ''FALSE'', ''false'', ''False'']
      \<longrightarrow> Bool c h key = (False, None)) \<and>
   (h (data c) key = Some (VStr v)
      \<and> v \<notin> set [''1'', ''t'', ''T'', ''TRUE'', ''true'', ''True'']
      \<and> v \<notin> set [''0'', ''f'', ''F'', ''FALSE'', ''false'', ''False'']
      \<longrightarrow> Bool c h key = (False, Some (ParseBoolInvalid (VStr v)))) \<and>
   (h (data c) key = None \<longrightarrow> Bool c h key = (False, Some (NotExistKey key)))"
  by (simp add: Bool_def ParseBool_def mapIndex_def truthy_def falsy_def)

theorem Bool_spellings_witness:
  "Bool root sampleHeap ''debug'' = (True, None) \<and>
   Bool root sampleHeap ''quiet'' = (False, None) \<and>
   Bool root sampleHeap ''mode'' = (False, Some (ParseBoolInvalid (VStr ''fast''))) \<and>
   Bool root sampleHeap ''absent'' = (False, Some (NotExistKey ''absent''))"
proof -
  have 1: "sampleHeap (data root) ''debug'' = Some (VStr ''true'')"
    and 2: "sampleHeap (data root) ''quiet'' = Some (VStr ''F'')"
    and 3: "sampleHeap (data root) ''mode'' = Some (VStr ''fast'')"
    and 4: "sampleHeap (data root) ''absent'' = None"
    by (simp_all add: sampleHeap_def root_def)
  show ?thesis
    using Bool_spellings [of sampleHeap root "''debug''" "''true''"]
      Bool_spellings [of sampleHeap root "''quiet''" "''F''"]
      Bool_spellings [of sampleHeap root "''mode''" "''fast''"]
      Bool_spellings [of sampleHeap root "''absent''" "''x''"]
      1 2 3 4
    by simp
qed

subsection \<open>Strings\<close>

text \<open>
  C5. \<open>String\<close> never returns an error: it returns the stored string when the key is
  present with a string value, and the empty string when the key is absent or holds
  something else. \<open>DefaultString\<close> returns the default whenever \<open>String\<close> yields the
  empty string or an error, and the stored value otherwise.
\<close>

theorem String_never_fails:
  "snd (String c h key) = None \<and>
   (h (data c) key = Some (VStr v) \<longrightarrow> String c h key = (v, None)) \<and>
   (h (data c) key = None \<longrightarrow> String c h key = ([], None)) \<and>
   (h (data c) key = Some w \<and> (\<forall>s. w \<noteq> VStr s) \<longrightarrow> String c h key = ([], None)) \<and>
   (fst (String c h key) = [] \<or> snd (String c h key) \<noteq> None
      \<longrightarrow> DefaultString c h key d = d) \<and>
   (h (data c) key = Some (VStr v) \<and> v \<noteq> [] \<longrightarrow> DefaultString c h key d = v)"
  by (cases "h (data c) key"; cases w)
     (auto simp: String_def DefaultString_def mapIndex_def split: val.splits)

theorem String_never_fails_witness:
  "String root sampleHeap ''mode'' = (''fast'', None) \<and>
   String root sampleHeap ''absent'' = ([], None) \<and>
   String root sampleHeap ''db'' = ([], None) \<and>
   DefaultString root sampleHeap ''absent'' ''dflt'' = ''dflt'' \<and>
   DefaultString root sampleHeap ''empty'' ''dflt'' = ''dflt'' \<and>
   DefaultString root sampleHeap ''mode'' ''dflt'' = ''fast''"
proof -
  have 1: "sampleHeap (data root) ''mode'' = Some (VStr ''fast'')"
    and 2: "sampleHeap (data root) ''absent'' = None"
    and 3: "sampleHeap (data root) ''db'' = Some (VMap 1)"
    and 4: "sampleHeap (data root) ''empty'' = Some (VStr [])"
    by (simp_all add: sampleHeap_def root_def)
  have a: "String root sampleHeap ''mode'' = (''fast'', None)"
    and f: "DefaultString root sampleHeap ''mode'' ''dflt'' = ''fast''"
    using String_never_fails [of root sampleHeap "''mode''" "''fast''" VNil "''dflt''"] 1
    by simp_all
  have b: "String root sampleHeap ''absent'' = ([], None)"
    using String_never_fails [of root sampleHeap "''absent''" "[]" VNil "''dflt''"] 2
    by simp
  have c: "String root sampleHeap ''db'' = ([], None)"
    using String_never_fails [of root sampleHeap "''db''" "[]" "VMap 1" "''dflt''"] 3
    by simp
  have e0: "String root sampleHeap ''empty'' = ([], None)"
    using String_never_fails [of root sampleHeap "''empty''" "[]" VNil "''dflt''"] 4
    by simp
  have d: "DefaultString root sampleHeap ''absent'' ''dflt'' = ''dflt''"
    using String_never_fails [of root sampleHeap "''absent''" "[]" VNil "''dflt''"] b
    by simp
  have e: "DefaultString root sampleHeap ''empty'' ''dflt'' = ''dflt''"
    using String_never_fails [of root sampleHeap "''empty''" "[]" VNil "''dflt''"] e0
    by simp
  from a b c d e f show ?thesis by simp
qed

subsection \<open>Writing\<close>

text \<open>
  C10. \<open>Set\<close> always returns a nil error and changes only the binding of its key: after
  the call the node maps the key to the new string, every other key of the node holds
  what it held before, and no other map object changes.
\<close>

theorem Set_frame:
  "Set c h key v = (h', err) \<Longrightarrow>
     err = None \<and> h' (data c) key = Some (VStr v) \<and>
     (\<forall>k'. k' \<noteq> key \<longrightarrow> h' (data c) k' = h (data c) k') \<and>
     (\<forall>a. a \<noteq> data c \<longrightarrow> h' a = h a)"
  by (auto simp: Set_def)

theorem Set_frame_witness:
  "snd (Set root sampleHeap ''mode'' ''no'') = None \<and>
   fst (Set root sampleHeap ''mode'' ''no'') (data root) ''mode'' = Some (VStr ''no'') \<and>
   fst (Set root sampleHeap ''mode'' ''no'') (data root) ''debug'' = Some (VStr ''true'') \<and>
   fst (Set root sampleHeap ''mode'' ''no'') 1 ''port'' = Some (VStr ''5432'')"
proof -
  have eq: "Set root sampleHeap ''mode'' ''no''
              = (fst (Set root sampleHeap ''mode'' ''no''), snd (Set root sampleHeap ''mode'' ''no''))"
    by simp
  have old: "sampleHeap (data root) ''debug'' = Some (VStr ''true'')"
    "sampleHeap 1 ''port'' = Some (VStr ''5432'')" "(1::nat) \<noteq> data root"
    by (simp_all add: sampleHeap_def root_def)
  from Set_frame [OF eq] old show ?thesis by simp
qed


subsection \<open>Section narrowing shares the map object\<close>

text \<open>
  C9. For a key (other than "") whose value is a nested mapping, \<open>Sub\<close> returns a handle
  over that very map object: no copy is made. A \<open>Set\<close> through the narrowed handle is
  therefore seen by every handle that refers to the same map object, and by the parent
  when it narrows to the section again. \<open>Sub ""\<close> is a handle over the current node;
  \<open>Sub\<close> fails when the key is absent or its value is not a mapping.
\<close>

theorem Sub_shares_mapping:
  "(key \<noteq> [] \<and> h (data c) key = Some (VMap m) \<longrightarrow>
      Sub c h key = Inr \<lparr>data = m\<rparr> \<and>
      (\<forall>c2 k v. data c2 = m \<longrightarrow>
         DIY c2 (fst (Set \<lparr>data = m\<rparr> h k v)) k = (VStr v, None) \<and>
         String c2 (fst (Set \<lparr>data = m\<rparr> h k v)) k = (v, None)) \<and>
      (\<forall>k v. m \<noteq> data c \<longrightarrow>
         Sub c (fst (Set \<lparr>data = m\<rparr> h k v)) key = Inr \<lparr>data = m\<rparr> \<and>
         fst (Set \<lparr>data = m\<rparr> h k v) (data c) = h (data c))) \<and>
   Sub c h [] = Inr \<lparr>data = data c\<rparr> \<and>
   (key \<noteq> [] \<and> h (data c) key = None \<longrightarrow> Sub c h key = Inl (KeyNotFound key)) \<and>
   (key \<noteq> [] \<and> h (data c) key = Some w \<and> (\<forall>a. w \<noteq> VMap a)
      \<longrightarrow> Sub c h key = Inl (NotAStructure key))"
  by (cases w) (auto simp: Sub_def sub_def Set_def DIY_def String_def mapIndex_def)

theorem Sub_shares_mapping_witness:
  "Sub root sampleHeap ''db'' = Inr \<lparr>data = 1\<rparr> \<and>
   String \<lparr>data = 1\<rparr> (fst (Set \<lparr>data = 1\<rparr> sampleHeap ''port'' ''6543'')) ''port'' = (''6543'', None) \<and>
   Sub root (fst (Set \<lparr>data = 1\<rparr> sampleHeap ''port'' ''6543'')) ''db'' = Inr \<lparr>data = 1\<rparr> \<and>
   Sub root sampleHeap [] = Inr \<lparr>data = 0\<rparr> \<and>
   Sub root sampleHeap ''absent'' = Inl (KeyNotFound ''absent'') \<and>
   Sub root sampleHeap ''mode'' = Inl (NotAStructure ''mode'')"
proof -
  have 1: "sampleHeap (data root) ''db'' = Some (VMap 1)"
    and 2: "sampleHeap (data root) ''absent'' = None"
    and 3: "sampleHeap (data root) ''mode'' = Some (VStr ''fast'')"
    and 4: "(1::nat) \<noteq> data root" "data root = 0"
    by (simp_all add: sampleHeap_def root_def)
  have a: "Sub root sampleHeap ''db'' = Inr \<lparr>data = 1\<rparr>"
    and b: "String \<lparr>data = 1\<rparr> (fst (Set \<lparr>data = 1\<rparr> sampleHeap ''port'' ''6543'')) ''port'' = (''6543'', None)"
    and c: "Sub root (fst (Set \<lparr>data = 1\<rparr> sampleHeap ''port'' ''6543'')) ''db'' = Inr \<lparr>data = 1\<rparr>"
    and d: "Sub root sampleHeap [] = Inr \<lparr>data = 0\<rparr>"
    using Sub_shares_mapping [of "''db''" sampleHeap root 1 VNil] 1 4 by simp_all
  have e: "Sub root sampleHeap ''absent'' = Inl (KeyNotFound ''absent'')"
    using Sub_shares_mapping [of "''absent''" sampleHeap root 1 VNil] 2 by simp
  have f: "Sub root sampleHeap ''mode'' = Inl (NotAStructure ''mode'')"
    using Sub_shares_mapping [of "''mode''" sampleHeap root 1 "VStr ''fast''"] 3 by simp
  from a b c d e f show ?thesis by simp
qed

subsection \<open>Loading\<close>

text \<open>
  C1. When the converted document has no top-level "config" key, or the value there is
  not a mapping, \<open>ParseData\<close> returns a structural error and no handle; when it is a
  mapping, \<open>ParseData\<close> returns a handle over the environment-expanded mapping. (A
  failure of the conversion itself is returned as it is, again with no handle.)
\<close>

theorem ParseData_wrapping_element:
  "(DocToMap bytes h = (Inr d, h1) \<and> h1 d ''config'' = None
      \<longrightarrow> ParseData DocToMap Expand bytes h = (Inl MissingConfigTags, h1)) \<and>
   (DocToMap bytes h = (Inr d, h1) \<and> h1 d ''config'' = Some w \<and> (\<forall>a. w \<noteq> VMap a)
      \<longrightarrow> ParseData DocToMap Expand bytes h
            = (Inl (if w = VNil then MissingConfigTags else ConfigWithoutSubTags), h1)) \<and>
   (DocToMap bytes h = (Inr d, h1) \<and> h1 d ''config'' = Some (VMap confVal)
      \<longrightarrow> ParseData DocToMap Expand bytes h
            = (Inr \<lparr>data = fst (Expand confVal h1)\<rparr>, snd (Expand confVal h1))) \<and>
   (DocToMap bytes h = (Inl err, h1)
      \<longrightarrow> ParseData DocToMap Expand bytes h = (Inl err, h1))"
  by (cases w) (auto simp: ParseData_def mapIndex_def split: prod.splits)

theorem ParseData_wrapping_element_witness:
  "ParseData (\<lambda>b h. (Inr 7, h(7 := [''other'' \<mapsto> VStr ''1'']))) (\<lambda>a h. (a, h)) ''<other>1</other>'' sampleHeap
     = (Inl MissingConfigTags, sampleHeap(7 := [''other'' \<mapsto> VStr ''1''])) \<and>
   ParseData (\<lambda>b h. (Inr 7, h(7 := [''config'' \<mapsto> VStr ''1'']))) (\<lambda>a h. (a, h)) ''<config>1</config>'' sampleHeap
     = (Inl ConfigWithoutSubTags, sampleHeap(7 := [''config'' \<mapsto> VStr ''1''])) \<and>
   ParseData (\<lambda>b h. (Inr 7, h(7 := [''config'' \<mapsto> VMap 0]))) (\<lambda>a h. (a, h)) ''<config>...</config>'' sampleHeap
     = (Inr \<lparr>data = 0\<rparr>, sampleHeap(7 := [''config'' \<mapsto> VMap 0])) \<and>
   ParseData (\<lambda>b h. (Inl (ConversionError ''EOF''), h)) (\<lambda>a h. (a, h)) [] sampleHeap
     = (Inl (ConversionError ''EOF''), sampleHeap)"
proof -
  have a: "ParseData (\<lambda>b h. (Inr 7, h(7 := [''other'' \<mapsto> VStr ''1'']))) (\<lambda>a h. (a, h)) ''<other>1</other>'' sampleHeap
     = (Inl MissingConfigTags, sampleHeap(7 := [''other'' \<mapsto> VStr ''1'']))"
    using ParseData_wrapping_element
      [of "\<lambda>b h. (Inr 7, h(7 := [''other'' \<mapsto> VStr ''1'']))" "''<other>1</other>''" sampleHeap 7
          "sampleHeap(7 := [''other'' \<mapsto> VStr ''1''])" "\<lambda>a h. (a, h)" VNil 0 MissingConfigTags]
    by simp
  have b: "ParseData (\<lambda>b h. (Inr 7, h(7 := [''config'' \<mapsto> VStr ''1'']))) (\<lambda>a h. (a, h)) ''<config>1</config>'' sampleHeap
     = (Inl ConfigWithoutSubTags, sampleHeap(7 := [''config'' \<mapsto> VStr ''1'']))"
    using ParseData_wrapping_element
      [of "\<lambda>b h. (Inr 7, h(7 := [''config'' \<mapsto> VStr ''1'']))" "''<config>1</config>''" sampleHeap 7
          "sampleHeap(7 := [''config'' \<mapsto> VStr ''1''])" "\<lambda>a h. (a, h)" "VStr ''1''" 0 MissingConfigTags]
    by simp
  have c: "ParseData (\<lambda>b h. (Inr 7, h(7 := [''config'' \<mapsto> VMap 0]))) (\<lambda>a h. (a, h)) ''<config>...</config>'' sampleHeap
     = (Inr \<lparr>data = 0\<rparr>, sampleHeap(7 := [''config'' \<mapsto> VMap 0]))"
    using ParseData_wrapping_element
      [of "\<lambda>b h. (Inr 7, h(7 := [''config'' \<mapsto> VMap 0]))" "''<config>...</config>''" sampleHeap 7
          "sampleHeap(7 := [''config'' \<mapsto> VMap 0])" "\<lambda>a h. (a, h)" VNil 0 MissingConfigTags]
    by simp
  have d: "ParseData (\<lambda>b h. (Inl (ConversionError ''EOF''), h)) (\<lambda>a h. (a, h)) [] sampleHeap
     = (Inl (ConversionError ''EOF''), sampleHeap)"
    using ParseData_wrapping_element
      [of "\<lambda>b h. (Inl (ConversionError ''EOF''), h)" "[]" sampleHeap 7
          sampleHeap "\<lambda>a h. (a, h)" VNil 0 "ConversionError ''EOF''"]
    by simp
  from a b c d show ?thesis by simp
qed

subsection \<open>Lists of strings\<close>

text \<open>
  C6. For a key whose stored string is "a;b;c", \<open>Strings\<close> returns the ordered
  sequence "a", "b", "c": it splits what \<open>String\<close> returns at every ";". When
  \<open>String\<close> yields the empty string, as it does for an absent key, \<open>Strings\<close>
  returns a nil slice and a nil error.
\<close>

theorem Strings_split:
  "(h (data c) key = Some (VStr ''a;b;c'')
      \<longrightarrow> Strings c h key = (Some [''a'', ''b'', ''c''], None)) \<and>
   (fst (String c h key) = [] \<longrightarrow> Strings c h key = (None, None)) \<and>
   (h (data c) key = None \<longrightarrow> Strings c h key = (None, None)) \<and>
   (fst (String c h key) \<noteq> []
      \<longrightarrow> Strings c h key = (Some (Split (fst (String c h key)) '';''), None))"
proof -
  have "Split ''a;b;c'' '';'' = [''a'', ''b'', ''c'']"
    by (simp add: HasPrefix_def)
  then show ?thesis
    by (auto simp: Strings_def String_def mapIndex_def split: val.splits option.splits)
qed

theorem Strings_split_witness:
  "Strings root sampleHeap ''hosts'' = (Some [''a'', ''b'', ''c''], None) \<and>
   Strings root sampleHeap ''absent'' = (None, None) \<and>
   Strings root sampleHeap ''empty'' = (None, None)"
proof -
  have 1: "sampleHeap (data root) ''hosts'' = Some (VStr ''a;b;c'')"
    and 2: "sampleHeap (data root) ''absent'' = None"
    and 3: "fst (String root sampleHeap ''empty'') = []"
    by (simp_all add: sampleHeap_def root_def String_def mapIndex_def)
  have a: "Strings root sampleHeap ''hosts'' = (Some [''a'', ''b'', ''c''], None)"
    using Strings_split [of sampleHeap root "''hosts''"] 1 by simp
  have b: "Strings root sampleHeap ''absent'' = (None, None)"
    using Strings_split [of sampleHeap root "''absent''"] 2 by simp
  have c: "Strings root sampleHeap ''empty'' = (None, None)"
    using Strings_split [of sampleHeap root "''empty''"] 3 by simp
  from a b c show ?thesis by simp
qed

subsection \<open>The integer parser against decimal numerals\<close>

lemma foldl_digits_ge: "n \<le> foldl (\<lambda>a c. a * 10 + digitVal c) n cs"
proof (induction cs arbitrary: n)
  case Nil
  show ?case by simp
next
  case (Cons c cs)
  have "n \<le> n * 10 + digitVal c" by simp
  also have "\<dots> \<le> foldl (\<lambda>a c. a * 10 + digitVal c) (n * 10 + digitVal c) cs"
    by (rule Cons.IH)
  finally show ?case by simp
qed

lemma digitVal_less: "digitVal c < 256"
proof -
  have "(of_char c :: nat) < 256" by (cases c) simp
  then show ?thesis by (simp add: digitVal_def less_imp_diff_less)
qed

lemma ParseUint_loop_Cons:
  "ParseUint_loop maxVal n (c # cs) =
     (if \<not> isDigit c then (0, Some ErrSyntax)
      else if n * 10 + digitVal c \<ge> 2 ^ 64 \<or> n * 10 + digitVal c > maxVal
        then (maxVal, Some ErrRange)
      else ParseUint_loop maxVal (n * 10 + digitVal c) cs)"
proof (cases "n \<ge> maxUint64 div 10 + 1")
  case True
  then have "n * 10 + digitVal c \<ge> 2 ^ 64" by (simp add: maxUint64_def)
  with True show ?thesis by simp
next
  case False
  then have n10: "n * 10 < 18446744073709551616" by (simp add: maxUint64_def)
  then have m1: "(n * 10) mod 18446744073709551616 = n * 10" by simp
  show ?thesis
  proof (cases "n * 10 + digitVal c < 18446744073709551616")
    case True
    then have "(n * 10 + digitVal c) mod 18446744073709551616 = n * 10 + digitVal c" by simp
    with False True show ?thesis by (simp add: m1 Let_def)
  next
    case big: False
    have "n * 10 + digitVal c < 2 * 18446744073709551616"
      using n10 digitVal_less [of c] by simp
    with big have "(n * 10 + digitVal c) mod 18446744073709551616
        = n * 10 + digitVal c - 18446744073709551616"
      by (simp add: mod_if)
    moreover have "n * 10 + digitVal c - 18446744073709551616 < n * 10"
      using big digitVal_less [of c] by simp
    ultimately show ?thesis using False big by (simp add: m1 Let_def)
  qed
qed

lemma ParseUint_loop_digits:
  assumes "list_all isDigit cs"
    and "foldl (\<lambda>a c. a * 10 + digitVal c) n cs \<le> maxVal"
    and "maxVal < 2 ^ 64"
  shows "ParseUint_loop maxVal n cs = (foldl (\<lambda>a c. a * 10 + digitVal c) n cs, None)"
  using assms
proof (induction cs arbitrary: n)
  case Nil
  show ?case by simp
next
  case (Cons c cs)
  let ?n1 = "n * 10 + digitVal c"
  have le: "?n1 \<le> maxVal"
    using foldl_digits_ge [of ?n1 cs] Cons.prems(2) by simp
  with Cons.prems(3) have small: "?n1 < 2 ^ 64" by simp
  have IH: "ParseUint_loop maxVal ?n1 cs = (foldl (\<lambda>a c. a * 10 + digitVal c) ?n1 cs, None)"
    using Cons.IH [of ?n1] Cons.prems by simp
  from Cons.prems(1) have dig: "isDigit c" by simp
  show ?case
    unfolding ParseUint_loop_Cons using dig le small IH by simp
qed



lemma ParseUint_loop_not_digits:
  assumes "\<not> list_all isDigit cs"
  shows "snd (ParseUint_loop maxVal n cs) \<noteq> None"
  using assms
proof (induction cs arbitrary: n)
  case Nil
  then show ?case by simp
next
  case (Cons c cs)
  then show ?case
    unfolding ParseUint_loop_Cons by (cases "isDigit c") auto
qed


lemma ParseUint_64:
  "b = 0 \<or> b = 64 \<Longrightarrow> s \<noteq> [] \<Longrightarrow> ParseUint s b = ParseUint_loop (2 ^ 64 - 1) 0 s"
  by (auto simp: ParseUint_def IntSize_def)

lemma ParseInt_unfold:
  assumes b: "b = 0 \<or> b = 64" and ne: "s \<noteq> []"
  shows "ParseInt s b =
     (if unsigned s = [] then (0, Some (NumError ''ParseInt'' s ErrSyntax))
      else case ParseUint_loop (2 ^ 64 - 1) 0 (unsigned s) of
        (un, Some ErrSyntax) \<Rightarrow> (0, Some (NumError ''ParseInt'' s ErrSyntax))
      | (un, Some ErrBitSize) \<Rightarrow> (0, Some (NumError ''ParseInt'' s ErrBitSize))
      | (un, _) \<Rightarrow>
          if hd s \<noteq> CHR ''-'' \<and> un \<ge> 2 ^ 63
            then (2 ^ 63 - 1, Some (NumError ''ParseInt'' s ErrRange))
          else if hd s = CHR ''-'' \<and> un > 2 ^ 63
            then (- (2 ^ 63), Some (NumError ''ParseInt'' s ErrRange))
          else (if hd s = CHR ''-'' then - int un else int un, None))"
proof -
  obtain c cs where s: "s = c # cs" using ne by (cases s) auto
  have u: "(if hd s = CHR ''+'' \<or> hd s = CHR ''-'' then tl s else s) = unsigned s"
    by (simp add: s unsigned_def)
  have bits: "(if b = 0 then IntSize else b) = 64" using b by (auto simp: IntSize_def)
  show ?thesis
  proof (cases "unsigned s = []")
    case True
    then have "ParseUint (unsigned s) b = (0, Some ErrSyntax)" by (simp add: ParseUint_def)
    with True ne show ?thesis
      by (simp add: ParseInt_def u Let_def)
  next
    case False
    then have pu: "ParseUint (unsigned s) b = ParseUint_loop (2 ^ 64 - 1) 0 (unsigned s)"
      using ParseUint_64 [OF b] by simp
    obtain un e where l: "ParseUint_loop (2 ^ 64 - 1) 0 (unsigned s) = (un, e)"
      by (cases "ParseUint_loop (2 ^ 64 - 1) 0 (unsigned s)")
    show ?thesis
      using False ne l
      by (cases e; cases "the e") (simp_all add: ParseInt_def u pu bits Let_def)
  qed
qed


lemma decimalInt_unsigned:
  "s \<noteq> [] \<Longrightarrow> decimalInt s =
     (if hd s = CHR ''-'' then - int (decimalValue (unsigned s)) else int (decimalValue (unsigned s)))"
  by (cases s) (auto simp: decimalInt_def unsigned_def)

lemma isDecimal_nonempty: "isDecimal s \<Longrightarrow> s \<noteq> []"
  by (auto simp: isDecimal_def unsigned_def)

lemma ParseInt_decimal:
  assumes b: "b = 0 \<or> b = 64" and dec: "isDecimal s"
    and lo: "- (2 ^ 63) \<le> decimalInt s" and hi: "decimalInt s < 2 ^ 63"
  shows "ParseInt s b = (decimalInt s, None)"
proof -
  have ne: "s \<noteq> []" using dec by (rule isDecimal_nonempty)
  from dec have u: "unsigned s \<noteq> []" and digs: "list_all isDigit (unsigned s)"
    by (simp_all add: isDecimal_def)
  have bound: "decimalValue (unsigned s) \<le> 2 ^ 63"
    using lo hi by (simp add: decimalInt_unsigned [OF ne] split: if_splits)
  then have "foldl (\<lambda>a c. a * 10 + digitVal c) 0 (unsigned s) \<le> 2 ^ 64 - 1"
    by (simp add: decimalValue_def)
  from ParseUint_loop_digits [OF digs this]
  have l: "ParseUint_loop (2 ^ 64 - 1) 0 (unsigned s) = (decimalValue (unsigned s), None)"
    by (simp add: decimalValue_def)
  show ?thesis
    using u l lo hi
    by (simp add: ParseInt_unfold [OF b ne] decimalInt_unsigned [OF ne] split: if_splits)
qed


lemma Atoi_decimal:
  assumes "isDecimal s" and "- (2 ^ 63) \<le> decimalInt s" and "decimalInt s < 2 ^ 63"
  shows "Atoi s = (decimalInt s, None)"
  using ParseInt_decimal [of 0 s] assms by (simp add: Atoi_def)


lemma isDigit_char_of: "(d::nat) < 10 \<Longrightarrow> isDigit (char_of (48 + d))"
  by (simp add: isDigit_def)

lemma digitVal_char_of: "d < 10 \<Longrightarrow> digitVal (char_of (48 + d)) = d"
  by (simp add: digitVal_def)

lemma digitsOf_digits: "list_all isDigit (digitsOf n)"
proof (induction n rule: digitsOf.induct)
  case (1 n)
  show ?case
  proof (cases "n < 10")
    case True
    then show ?thesis by (simp add: digitsOf.simps [of n] isDigit_char_of)
  next
    case False
    have "n mod 10 < 10" by simp
    with False "1.IH" show ?thesis
      by (simp add: digitsOf.simps [of n] isDigit_char_of)
  qed
qed

lemma digitsOf_nonempty: "digitsOf n \<noteq> []"
  by (subst digitsOf.simps) simp

lemma decimalValue_digitsOf: "decimalValue (digitsOf n) = n"
proof (induction n rule: digitsOf.induct)
  case (1 n)
  show ?case
  proof (cases "n < 10")
    case True
    then show ?thesis
      by (simp add: digitsOf.simps [of n] decimalValue_def digitVal_char_of)
  next
    case False
    have m: "n mod 10 < 10" by simp
    from False "1.IH" have "decimalValue (digitsOf (n div 10)) = n div 10" by simp
    with False show ?thesis
      by (simp add: digitsOf.simps [of n] decimalValue_def digitVal_char_of [OF m])
  qed
qed

lemma isDigit_not_sign: "isDigit c \<Longrightarrow> c \<noteq> CHR ''+'' \<and> c \<noteq> CHR ''-''"
  by (auto simp: isDigit_def)

lemma unsigned_digitsOf: "unsigned (digitsOf n) = digitsOf n"
proof (cases "digitsOf n")
  case Nil
  then show ?thesis by (simp add: unsigned_def)
next
  case (Cons c cs)
  with digitsOf_digits [of n] have "isDigit c" by simp
  with Cons show ?thesis by (simp add: unsigned_def isDigit_not_sign)
qed

lemma unsigned_minus: "unsigned (CHR ''-'' # ds) = ds"
  by (simp add: unsigned_def)

lemma isDecimal_decimalSpelling: "isDecimal (decimalSpelling i)"
proof (cases "i < 0")
  case True
  then show ?thesis
    by (simp add: isDecimal_def decimalSpelling_def unsigned_minus
        digitsOf_nonempty digitsOf_digits)
next
  case False
  then show ?thesis
    by (simp add: isDecimal_def decimalSpelling_def unsigned_digitsOf
        digitsOf_nonempty digitsOf_digits)
qed

lemma decimalInt_decimalSpelling: "decimalInt (decimalSpelling i) = i"
proof (cases "i < 0")
  case True
  then show ?thesis
    by (simp add: decimalInt_def decimalSpelling_def decimalValue_digitsOf)
next
  case False
  obtain c cs where d: "digitsOf (nat i) = c # cs"
    using digitsOf_nonempty [of "nat i"] by (cases "digitsOf (nat i)") auto
  with digitsOf_digits [of "nat i"] have "isDigit c" by simp
  then have "c \<noteq> CHR ''-''" by (simp add: isDigit_not_sign)
  moreover have "decimalValue (unsigned (c # cs)) = nat i"
    using unsigned_digitsOf [of "nat i"] decimalValue_digitsOf [of "nat i"] d by simp
  ultimately show ?thesis
    using False d by (simp add: decimalInt_def decimalSpelling_def)
qed


subsection \<open>The strict number getters\<close>



subsection \<open>Writing a number and reading it back\<close>

text \<open>
  C7. After \<open>Set("x", "5")\<close>, \<open>Int("x")\<close> returns \<open>(5, nil)\<close>. More generally, after
  \<open>Set\<close> stores the decimal spelling of an integer \<open>n\<close> of the 64-bit \<^verbatim>\<open>int\<close> range
  under a key, \<open>Int\<close> of that key returns \<open>(n, nil)\<close>.
\<close>

theorem Set_then_Int:
  "(Set c h ''x'' ''5'' = (h', err) \<longrightarrow>
      err = None \<and> Int_get c h' ''x'' = Returned (5, None)) \<and>
   (- (2 ^ 63) \<le> n \<and> n < 2 ^ 63 \<and> Set c h key (decimalSpelling n) = (h', err) \<longrightarrow>
      err = None \<and> Int_get c h' key = Returned (n, None))"
proof -
  have five: "decimalSpelling 5 = ''5''"
    by code_simp
  have general: "Set c h k (decimalSpelling m) = (h', err) \<Longrightarrow>
      - (2 ^ 63) \<le> m \<Longrightarrow> m < 2 ^ 63 \<Longrightarrow>
      err = None \<and> Int_get c h' k = Returned (m, None)" for k m
  proof -
    assume set: "Set c h k (decimalSpelling m) = (h', err)"
      and lo: "- (2 ^ 63) \<le> m" and hi: "m < 2 ^ 63"
    from set have e: "err = None" and st: "h' (data c) k = Some (VStr (decimalSpelling m))"
      by (auto simp: Set_def)
    have "Atoi (decimalSpelling m) = (m, None)"
      using Atoi_decimal [of "decimalSpelling m"] lo hi
      by (simp add: isDecimal_decimalSpelling decimalInt_decimalSpelling)
    with e st show ?thesis
      by (simp add: Int_get_def assertString_def mapIndex_def)
  qed
  from general [of "''x''" 5] general [of key n] five show ?thesis by simp
qed

theorem Set_then_Int_witness:
  "Int_get root (fst (Set root sampleHeap ''x'' ''5'')) ''x'' = Returned (5, None) \<and>
   Int_get root (fst (Set root sampleHeap ''offset'' ''-120'')) ''offset'' = Returned (- 120, None)"
proof -
  have s: "decimalSpelling (- 120) = ''-120''"
    by code_simp
  have a: "Int_get root (fst (Set root sampleHeap ''x'' ''5'')) ''x'' = Returned (5, None)"
    using Set_then_Int [of root sampleHeap "fst (Set root sampleHeap ''x'' ''5'')"
        "snd (Set root sampleHeap ''x'' ''5'')" 0 "''x''"]
    by simp
  have b: "Int_get root (fst (Set root sampleHeap ''offset'' ''-120'')) ''offset''
      = Returned (- 120, None)"
    using Set_then_Int [of root sampleHeap "fst (Set root sampleHeap ''offset'' ''-120'')"
        "snd (Set root sampleHeap ''offset'' ''-120'')" "- 120" "''offset''"] s
    by simp
  from a b show ?thesis by simp
qed

subsection \<open>The default-valued wrappers\<close>

text \<open>
  What the wrappers do: \<open>DefaultBool\<close> returns the value of \<open>Bool\<close> when its error is
  nil and the default otherwise, the absent key included. The numeric wrappers do the
  same whenever their getter returns, but a panic of the getter passes through them.
\<close>

lemma DefaultBool_absorbs:
  "DefaultBool c h key d = (if snd (Bool c h key) = None then fst (Bool c h key) else d)"
  by (cases "Bool c h key") (auto simp: DefaultBool_def)

lemma DefaultBool_absent: "h (data c) key = None \<Longrightarrow> DefaultBool c h key d = d"
  by (simp add: DefaultBool_def Bool_def mapIndex_def)

lemma DefaultInt_returned:
  "Int_get c h key = Returned (v, e) \<Longrightarrow>
     DefaultInt c h key d = Returned (if e = None then v else d)"
  by (cases e) (simp_all add: DefaultInt_def)

lemma DefaultInt64_returned:
  "Int64 c h key = Returned (v, e) \<Longrightarrow>
     DefaultInt64 c h key d = Returned (if e = None then v else d)"
  by (cases e) (simp_all add: DefaultInt64_def)

lemma DefaultFloat_returned:
  "Float parseFloat c h key = Returned (v, e) \<Longrightarrow>
     DefaultFloat parseFloat c h key d = Returned (if e = None then v else d)"
  by (cases e) (simp_all add: DefaultFloat_def)

lemma Default_number_absent:
  "h (data c) key = None \<Longrightarrow>
     DefaultInt c h key d = Panicked (TypeAssertionError VNil) \<and>
     DefaultInt64 c h key d = Panicked (TypeAssertionError VNil) \<and>
     DefaultFloat parseFloat c h key d' = Panicked (TypeAssertionError VNil)"
  by (simp add: DefaultInt_def DefaultInt64_def DefaultFloat_def Int_get_def Int64_def
      Float_def assertString_def mapIndex_def)

text \<open>
  C4 says that every default-valued wrapper returns the default on any failure of its
  getter, the absence of the key included. On the sample configuration, where the key
  \<open>absent\<close> does not exist, \<open>DefaultBool\<close> returns the default, but \<open>DefaultInt\<close>,
  \<open>DefaultInt64\<close> and \<open>DefaultFloat\<close> panic and return nothing.
\<close>

theorem Default_number_absent_panics:
  "DefaultBool root sampleHeap ''absent'' True = True \<and>
   DefaultInt root sampleHeap ''absent'' 7 = Panicked (TypeAssertionError VNil) \<and>
   DefaultInt64 root sampleHeap ''absent'' 7 = Panicked (TypeAssertionError VNil) \<and>
   DefaultFloat parseFloat root sampleHeap ''absent'' d = Panicked (TypeAssertionError VNil)"
  by (simp add: DefaultBool_def Bool_def DefaultInt_def DefaultInt64_def DefaultFloat_def
      Int_get_def Int64_def Float_def assertString_def mapIndex_def sampleHeap_def root_def)

subsection \<open>Saving\<close>

text \<open>
  C8 says that saving a loaded configuration to a new path succeeds and that the saved
  file loads back with the same scalars. \<open>SaveConfigFile\<close> never succeeds: whatever the
  handle, the path and the file system, it returns an error, either the one of opening
  the file or the marshaller's refusal of a map, and it never reaches the write.
\<close>

theorem SaveConfigFile_fails:
  "fst (SaveConfigFile OpenFile Write Close c h filename w) \<noteq> None"
  by (simp add: SaveConfigFile_def MarshalIndent_def split: prod.splits sum.splits)

lemma SaveConfigFile_opened:
  "OpenFile filename w = (Inr f, w1) \<Longrightarrow>
     SaveConfigFile OpenFile Write Close c h filename w
       = (Some (UnsupportedTypeError ''map[string]interface {}''), Close f w1)"
  by (simp add: SaveConfigFile_def MarshalIndent_def)

end
